theory Spec2Isabelle
  imports Main "HOL-Library.AList"
begin

section \<open>The per-connection worker of the SimplePush server\<close>

text \<open>
  A shallow embedding of \<^verbatim>\<open>simplepush/worker\<close> (the second document of
  \<^verbatim>\<open>static_locator.go\<close>): the sniffer, the run loop and the handlers
  \<^verbatim>\<open>Hello\<close>, \<^verbatim>\<open>Ack\<close>, \<^verbatim>\<open>Register\<close>, \<^verbatim>\<open>Unregister\<close>,
  \<^verbatim>\<open>Flush\<close> and \<^verbatim>\<open>Ping\<close>.

  Everything a goroutine does to the outside is an event appended to a trace, in program
  order: a frame written to the socket, a command sent on \<^verbatim>\<open>sock.Scmd\<close>, a call of the
  storage interface, a log line, closing the socket. What the outside answers (storage,
  dispatcher, UUID generator, the error taxonomy, the JSON decoder, the Unicode case
  tables, the command constants) is not in the source file; it is a parameter of every
  function, the record \<open>Env\<close>, whose operations read and update an abstract world.
  A Go panic is the outcome \<open>Panic\<close>; \<^verbatim>\<open>recover\<close> is a case distinction on it.
\<close>

subsection \<open>JSON values and \<^verbatim>\<open>util.JsMap\<close>\<close>

text \<open>
  \<^verbatim>\<open>util.JsMap\<close> is \<^verbatim>\<open>map[string]interface{}\<close>. A value of type
  \<^verbatim>\<open>interface{}\<close> is a JSON value; the nil interface is \<open>JNull\<close>. A map is an
  association list read with \<open>map_of\<close> and written with \<open>AList.update\<close>; the empty map is
  \<open>[]\<close>.
\<close>

datatype jsval =
    JNull
  | JBool bool
  | JNum int
  | JStr string
  | JArr "jsval list"
  | JObj "(string \<times> jsval) list"

type_synonym JsMap = "(string \<times> jsval) list"

text \<open>\<^verbatim>\<open>m[k]\<close>: the value, or nil when the key is absent.\<close>

definition jsget :: "JsMap \<Rightarrow> string \<Rightarrow> jsval" where
  "jsget m k = (case map_of m k of None \<Rightarrow> JNull | Some v \<Rightarrow> v)"

text \<open>\<^verbatim>\<open>_, ok := m[k]\<close>\<close>

definition haskey :: "JsMap \<Rightarrow> string \<Rightarrow> bool" where
  "haskey m k = (case map_of m k of None \<Rightarrow> False | Some v \<Rightarrow> True)"

text \<open>\<^verbatim>\<open>m[k] = v\<close>\<close>

definition jsset :: "JsMap \<Rightarrow> string \<Rightarrow> jsval \<Rightarrow> JsMap" where
  "jsset m k v = AList.update k v m"

text \<open>The type assertions \<^verbatim>\<open>x.(string)\<close> and \<^verbatim>\<open>x.(util.JsMap)\<close>; \<open>None\<close> is the panic.\<close>

fun asString :: "jsval \<Rightarrow> string option" where
  "asString (JStr s) = Some s"
| "asString _ = None"

fun asJsMap :: "jsval \<Rightarrow> JsMap option" where
  "asJsMap (JObj m) = Some m"
| "asJsMap _ = None"

subsection \<open>Errors, commands, events\<close>

text \<open>
  The errors of package \<^verbatim>\<open>sperrors\<close> that the worker names, and any other error value
  (the storage's own errors are passed through).
\<close>

datatype error =
    UnknownCommandError
  | InvalidCommandError
  | MissingDataError
  | InvalidDataError
  | OtherError string

record PushCommand =
  Command :: int
  Arguments :: jsval

datatype level = DEBUG | INFO | WARN | ERROR

datatype store_call =
    SetUAIDHost_call string
  | GetUpdates_call string int
  | Ack_call string JsMap
  | RegisterAppID_call string string int
  | DeleteAppID_call string string bool

text \<open>
  A log event keeps the logger's type argument and its message (for a message built with
  \<^verbatim>\<open>fmt.Sprintf\<close>, the format string); the field map of a log line is not kept.
\<close>

datatype event =
    Log level string string
  | Send JsMap
  | ToScmd PushCommand
  | Close
  | StoreCall store_call

record 'w sys =
  world :: 'w
  trace :: "event list"

text \<open>
  The collaborators of the worker. None of them is defined in the source file: the
  storage interface behind \<^verbatim>\<open>sock.Store\<close>, the dispatcher at the other end of
  \<^verbatim>\<open>sock.Scmd\<close>, \<^verbatim>\<open>GenUUID4\<close>, \<^verbatim>\<open>sperrors.ErrToStatus\<close>,
  \<^verbatim>\<open>json.Unmarshal\<close> into a \<^verbatim>\<open>util.JsMap\<close> (\<open>None\<close>: a decode error;
  \<open>Some None\<close>: the nil map that JSON \<^verbatim>\<open>null\<close> leaves), the Unicode path of
  \<^verbatim>\<open>strings.ToLower\<close>, and the command constants.
\<close>

record 'w Env =
  SetUAIDHost :: "string \<Rightarrow> 'w \<Rightarrow> error option \<times> 'w"
  GetUpdates :: "string \<Rightarrow> int \<Rightarrow> 'w \<Rightarrow> (JsMap option \<times> error option) \<times> 'w"
  Store_Ack :: "string \<Rightarrow> JsMap \<Rightarrow> 'w \<Rightarrow> error option \<times> 'w"
  RegisterAppID :: "string \<Rightarrow> string \<Rightarrow> int \<Rightarrow> 'w \<Rightarrow> error option \<times> 'w"
  DeleteAppID :: "string \<Rightarrow> string \<Rightarrow> bool \<Rightarrow> 'w \<Rightarrow> error option \<times> 'w"
  Scmd_put :: "PushCommand \<Rightarrow> 'w \<Rightarrow> 'w"
  Scmd_take :: "'w \<Rightarrow> PushCommand \<times> 'w"
  GenUUID4 :: "'w \<Rightarrow> string \<times> 'w"
  ErrToStatus :: "error \<Rightarrow> int \<times> string"
  Unmarshal :: "string \<Rightarrow> JsMap option option"
  unicode_ToLower :: "string \<Rightarrow> string"
  DIE :: int
  HELLO :: int
  REGIS :: int
  FLUSH :: int

definition emit :: "event \<Rightarrow> 'w sys \<Rightarrow> 'w sys" where
  "emit e s = s\<lparr>trace := trace s @ [e]\<rparr>"

text \<open>\<^verbatim>\<open>sock.Scmd <- cmd\<close> and \<^verbatim>\<open><-sock.Scmd\<close>\<close>

definition scmd_send :: "'w Env \<Rightarrow> PushCommand \<Rightarrow> 'w sys \<Rightarrow> 'w sys" where
  "scmd_send env cmd s = emit (ToScmd cmd) (s\<lparr>world := Scmd_put env cmd (world s)\<rparr>)"

definition scmd_recv :: "'w Env \<Rightarrow> 'w sys \<Rightarrow> PushCommand \<times> 'w sys" where
  "scmd_recv env s = (case Scmd_take env (world s) of (r, w) \<Rightarrow> (r, s\<lparr>world := w\<rparr>))"

text \<open>A call of the storage interface: the call is recorded, the world is the store's.\<close>

definition store_op :: "store_call \<Rightarrow> ('w \<Rightarrow> 'r \<times> 'w) \<Rightarrow> 'w sys \<Rightarrow> 'r \<times> 'w sys" where
  "store_op c f s =
     (case f (world s) of (r, w) \<Rightarrow> (r, emit (StoreCall c) (s\<lparr>world := w\<rparr>)))"

definition gen_uuid :: "'w Env \<Rightarrow> 'w sys \<Rightarrow> string \<times> 'w sys" where
  "gen_uuid env s = (case GenUUID4 env (world s) of (u, w) \<Rightarrow> (u, s\<lparr>world := w\<rparr>))"

subsection \<open>The worker and its socket\<close>

definition INACTIVE :: int where "INACTIVE = 0"
definition ACTIVE :: int where "ACTIVE = 1"

definition UAID_MAX_LEN :: nat where "UAID_MAX_LEN = 100"
definition CHID_MAX_LEN :: nat where "CHID_MAX_LEN = 100"

text \<open>
  \<^verbatim>\<open>Worker.state\<close>; the logger and the filter are fixed at construction. Of
  \<^verbatim>\<open>PushWS\<close> the state is \<^verbatim>\<open>Uaid\<close>; its socket, channels, store and logger
  are the world.
\<close>

record Worker =
  state :: int

record PushWS =
  Uaid :: string

definition NewWorker :: Worker where
  "NewWorker = \<lparr>state = INACTIVE\<rparr>"

subsection \<open>\<^verbatim>\<open>strings.ToLower\<close> and the channel filter\<close>

definition isASCII :: "char \<Rightarrow> bool" where
  "isASCII c = ((of_char c :: nat) < 128)"

definition isUpper :: "char \<Rightarrow> bool" where
  "isUpper c = (65 \<le> (of_char c :: nat) \<and> (of_char c :: nat) \<le> 90)"

definition lower_byte :: "char \<Rightarrow> char" where
  "lower_byte c = (if isUpper c then char_of ((of_char c :: nat) + 32) else c)"

text \<open>
  \<^verbatim>\<open>strings.ToLower\<close>: a string of ASCII bytes is lowered byte by byte; any other
  string goes through \<^verbatim>\<open>unicode.ToLower\<close> rune by rune, whose tables are a parameter.
\<close>

definition ToLower :: "'w Env \<Rightarrow> string \<Rightarrow> string" where
  "ToLower env s = (if list_all isASCII s then map lower_byte s else unicode_ToLower env s)"

text \<open>The class \<^verbatim>\<open>[\w-]\<close>: digits, ASCII letters, underscore, hyphen.\<close>

definition word_or_hyphen :: "char \<Rightarrow> bool" where
  "word_or_hyphen c =
     (let n = (of_char c :: nat) in
        (48 \<le> n \<and> n \<le> 57) \<or> (65 \<le> n \<and> n \<le> 90) \<or> (97 \<le> n \<and> n \<le> 122)
        \<or> n = 95 \<or> n = 45)"

text \<open>
  \<^verbatim>\<open>self.filter.Find(b) != nil\<close> for the filter \<^verbatim>\<open>[^\w-]\<close> of
  \<^verbatim>\<open>NewWorker\<close>: some rune of \<open>b\<close> is outside the class. The class is ASCII, an ASCII
  byte of a Go string is always a rune of its own, and a byte from 128 on belongs to a
  rune outside ASCII (or is read as U+FFFD); so there is a match exactly when some byte
  is outside the class.
\<close>

definition filter_Find :: "string \<Rightarrow> bool" where
  "filter_Find b = list_ex (\<lambda>c. \<not> word_or_hyphen c) b"

subsection \<open>\<^verbatim>\<open>handleError\<close>, \<^verbatim>\<open>Flush\<close>, \<^verbatim>\<open>Ping\<close>\<close>

definition handleError :: "'w Env \<Rightarrow> PushWS \<Rightarrow> JsMap \<Rightarrow> error \<Rightarrow> 'w sys \<Rightarrow> 'w sys" where
  "handleError env sock message err s =
     (let s1 = emit (Log INFO ''worker'' ''Sending error'') s;
          m1 = jsset message ''status'' (JNum (fst (ErrToStatus env err)));
          m2 = jsset m1 ''error'' (JStr (snd (ErrToStatus env err)))
      in emit (Send m2) s1)"

text \<open>
  \<^verbatim>\<open>Flush\<close>. The branch for an empty \<^verbatim>\<open>Uaid\<close> has no \<^verbatim>\<open>return\<close>: the
  function goes on to \<^verbatim>\<open>GetUpdates\<close>. The deferred timer log runs on every path.
\<close>

definition Flush :: "'w Env \<Rightarrow> PushWS \<Rightarrow> int \<Rightarrow> 'w sys \<Rightarrow> 'w sys" where
  "Flush env sock lastAccessed s =
     (let s1 = (if Uaid sock = []
                then emit Close
                       (scmd_send env \<lparr>Command = DIE env, Arguments = JNull\<rparr>
                          (emit (Log ERROR ''worker'' ''Undefined UAID for socket. Aborting.'') s))
                else s)
      in case store_op (GetUpdates_call (Uaid sock) lastAccessed)
                (GetUpdates env (Uaid sock) lastAccessed) s1 of
           ((updates, err), s2) \<Rightarrow>
             emit (Log INFO ''timer'' ''Client flush completed'')
               (case err of
                  Some e \<Rightarrow> handleError env sock [(''messageType'', JStr ''notification'')] e s2
                | None \<Rightarrow>
                    (case updates of
                       None \<Rightarrow> s2
                     | Some u \<Rightarrow>
                         emit (Send (jsset u ''messageType'' (JStr ''notification'')))
                           (emit (Log DEBUG ''worker'' ''Flushing data back to socket'') s2))))"

definition Ping :: "PushWS \<Rightarrow> JsMap \<Rightarrow> 'w sys \<Rightarrow> error option \<times> 'w sys" where
  "Ping sock data s =
     (None, emit (Send [(''messageType'', jsget data ''messageType''), (''status'', JNum 200)]) s)"

subsection \<open>The handlers with a deferred \<^verbatim>\<open>recover\<close>\<close>

text \<open>
  Each handler is its body, which returns or panics, under the deferred function that
  logs a recovered panic and sets the result to \<^verbatim>\<open>InvalidDataError\<close>. What the body
  did before the panic stays done.
\<close>

datatype outcome = Panic | Return "error option"

definition recovered :: "outcome \<Rightarrow> 'w sys \<Rightarrow> error option \<times> 'w sys" where
  "recovered out s =
     (case out of
        Panic \<Rightarrow> (Some InvalidDataError, emit (Log ERROR ''worker'' ''Unhandled error'') s)
      | Return err \<Rightarrow> (err, s))"

text \<open>Lines 254 to 277 of \<^verbatim>\<open>Hello\<close>: the dispatcher round trip, the host binding, the reply.\<close>

definition Hello_finish ::
  "'w Env \<Rightarrow> Worker \<Rightarrow> PushWS \<Rightarrow> JsMap \<Rightarrow> 'w sys \<Rightarrow> outcome \<times> Worker \<times> PushWS \<times> JsMap \<times> 'w sys"
where
  "Hello_finish env self sock data s =
     (let cmd = \<lparr>Command = HELLO env,
                 Arguments = JObj [(''uaid'', JStr (Uaid sock)),
                                   (''chids'', jsget data ''channelIDs'')]\<rparr>;
          s1 = scmd_send env cmd s
      in case scmd_recv env s1 of
           (result, s2) \<Rightarrow>
             (case store_op (SetUAIDHost_call (Uaid sock)) (SetUAIDHost env (Uaid sock)) s2 of
                (Some e, s3) \<Rightarrow> (Return (Some e), self, sock, data, s3)
              | (None, s3) \<Rightarrow>
                  (let s4 = emit (Log DEBUG ''worker'' ''sending response'') s3;
                       s5 = emit (Send [(''messageType'', jsget data ''messageType''),
                                        (''status'', JNum (Command result)),
                                        (''uaid'', JStr (Uaid sock))]) s4;
                       self1 = self\<lparr>state := ACTIVE\<rparr>
                   in (Return None, self1, sock, data, Flush env sock 0 s5))))"

text \<open>
  \<^verbatim>\<open>Hello\<close> takes the socket by pointer and the buffer is a map: the caller sees the new
  \<^verbatim>\<open>Uaid\<close> and the \<^verbatim>\<open>uaid\<close> key written into the buffer, so both are returned.
\<close>

definition Hello_body ::
  "'w Env \<Rightarrow> Worker \<Rightarrow> PushWS \<Rightarrow> JsMap \<Rightarrow> 'w sys \<Rightarrow> outcome \<times> Worker \<times> PushWS \<times> JsMap \<times> 'w sys"
where
  "Hello_body env self sock buffer s =
     (let data = (if haskey buffer ''uaid'' then buffer else jsset buffer ''uaid'' (JStr []))
      in if jsget data ''channelIDs'' = JNull
         then (Return (Some MissingDataError), self, sock, data, s)
         else if 0 < length (Uaid sock)
         then (case asString (jsget data ''uaid'') of
                 None \<Rightarrow> (Panic, self, sock, data, s)
               | Some u \<Rightarrow>
                   if 0 < length u \<and> Uaid sock \<noteq> u
                   then (Return (Some InvalidCommandError), self, sock, data, s)
                   else Hello_finish env self sock data s)
         else (case asString (jsget data ''uaid'') of
                 None \<Rightarrow> (Panic, self, sock, data, s)
               | Some u \<Rightarrow>
                   if UAID_MAX_LEN < length u
                   then (Return (Some InvalidDataError), self, sock\<lparr>Uaid := u\<rparr>, data, s)
                   else if length u = 0
                   then (case gen_uuid env s of
                           (uuid, s1) \<Rightarrow> Hello_finish env self (sock\<lparr>Uaid := uuid\<rparr>) data s1)
                   else Hello_finish env self (sock\<lparr>Uaid := u\<rparr>) data s))"

definition Hello ::
  "'w Env \<Rightarrow> Worker \<Rightarrow> PushWS \<Rightarrow> JsMap \<Rightarrow> 'w sys
     \<Rightarrow> error option \<times> Worker \<times> PushWS \<times> JsMap \<times> 'w sys"
where
  "Hello env self sock buffer s =
     (case Hello_body env self sock buffer s of
        (out, self1, sock1, data, s1) \<Rightarrow>
          (case recovered out s1 of (err, s2) \<Rightarrow> (err, self1, sock1, data, s2)))"

definition Ack_body :: "'w Env \<Rightarrow> PushWS \<Rightarrow> JsMap \<Rightarrow> 'w sys \<Rightarrow> outcome \<times> 'w sys" where
  "Ack_body env sock data s =
     (if Uaid sock = [] then (Return (Some InvalidCommandError), s)
      else if jsget data ''updates'' = JNull then (Return (Some MissingDataError), s)
      else (case store_op (Ack_call (Uaid sock) data) (Store_Ack env (Uaid sock) data) s of
              (None, s1) \<Rightarrow> (Return None, Flush env sock 0 s1)
            | (Some e, s1) \<Rightarrow>
                (Return (Some e), emit (Log DEBUG ''worker'' ''sending response'') s1)))"

definition Ack :: "'w Env \<Rightarrow> PushWS \<Rightarrow> JsMap \<Rightarrow> 'w sys \<Rightarrow> error option \<times> 'w sys" where
  "Ack env sock data s = (case Ack_body env sock data s of (out, s1) \<Rightarrow> recovered out s1)"

definition Register_body :: "'w Env \<Rightarrow> PushWS \<Rightarrow> JsMap \<Rightarrow> 'w sys \<Rightarrow> outcome \<times> 'w sys" where
  "Register_body env sock data s =
     (if Uaid sock = [] then (Return (Some InvalidCommandError), s)
      else if jsget data ''channelID'' = JNull then (Return (Some MissingDataError), s)
      else (case asString (jsget data ''channelID'') of
              None \<Rightarrow> (Panic, s)
            | Some appid \<Rightarrow>
                if CHID_MAX_LEN < length appid then (Return (Some InvalidDataError), s)
                else if filter_Find (ToLower env appid) then (Return (Some InvalidDataError), s)
                else (case store_op (RegisterAppID_call (Uaid sock) appid 0)
                             (RegisterAppID env (Uaid sock) appid 0) s of
                        (Some e, s1) \<Rightarrow>
                          (Return (Some e),
                           emit (Log ERROR ''worker'' ''ERROR: RegisterAppID failed %s'') s1)
                      | (None, s1) \<Rightarrow>
                          (let cmd = \<lparr>Command = REGIS env, Arguments = JObj data\<rparr>;
                               s2 = scmd_send env cmd s1
                           in case scmd_recv env s2 of
                                (result, s3) \<Rightarrow>
                                  (let s4 = emit (Log DEBUG ''worker'' ''Server returned %s'') s3
                                   in case asJsMap (Arguments result) of
                                        None \<Rightarrow> (Panic, s4)
                                      | Some args \<Rightarrow>
                                          (case asString (jsget args ''pushEndpoint'') of
                                             None \<Rightarrow> (Panic, s4)
                                           | Some endpoint \<Rightarrow>
                                               (let reply =
                                                      [(''messageType'', jsget data ''messageType''),
                                                       (''uaid'', JStr (Uaid sock)),
                                                       (''status'', JNum 200),
                                                       (''channelID'', jsget data ''channelID''),
                                                       (''pushEndpoint'', JStr endpoint)];
                                                    s5 = emit (Log DEBUG ''worker'' ''sending response'') s4
                                                in (Return None, emit (Send reply) s5))))))))"

definition Register :: "'w Env \<Rightarrow> PushWS \<Rightarrow> JsMap \<Rightarrow> 'w sys \<Rightarrow> error option \<times> 'w sys" where
  "Register env sock data s =
     (case Register_body env sock data s of (out, s1) \<Rightarrow> recovered out s1)"

text \<open>The result of \<^verbatim>\<open>DeleteAppID\<close> is dropped; \<^verbatim>\<open>err\<close> is still nil at the end.\<close>

definition Unregister_body :: "'w Env \<Rightarrow> PushWS \<Rightarrow> JsMap \<Rightarrow> 'w sys \<Rightarrow> outcome \<times> 'w sys" where
  "Unregister_body env sock data s =
     (if Uaid sock = []
      then (Return (Some InvalidCommandError),
            emit (Log ERROR ''worker'' ''Unregister failed, missing sock.uaid'') s)
      else if jsget data ''channelID'' = JNull
      then (Return (Some MissingDataError),
            emit (Log ERROR ''worker'' ''Unregister failed, missing channelID'') s)
      else (case asString (jsget data ''channelID'') of
              None \<Rightarrow> (Panic, s)
            | Some appid \<Rightarrow>
                (case store_op (DeleteAppID_call (Uaid sock) appid False)
                        (DeleteAppID env (Uaid sock) appid False) s of
                   (dropped, s1) \<Rightarrow>
                     (let s2 = emit (Log DEBUG ''worker'' ''sending response'') s1
                      in (Return None,
                          emit (Send [(''messageType'', jsget data ''messageType''),
                                      (''status'', JNum 200),
                                      (''channelID'', JStr appid)]) s2)))))"

definition Unregister :: "'w Env \<Rightarrow> PushWS \<Rightarrow> JsMap \<Rightarrow> 'w sys \<Rightarrow> error option \<times> 'w sys" where
  "Unregister env sock data s =
     (case Unregister_body env sock data s of (out, s1) \<Rightarrow> recovered out s1)"

subsection \<open>The run loop\<close>

text \<open>
  What one \<^verbatim>\<open>select\<close> of \<^verbatim>\<open>Run\<close> receives: a command on \<^verbatim>\<open>sock.Ccmd\<close>
  (with the clock reading \<^verbatim>\<open>time.Now().UTC().Unix()\<close> of that moment), or a buffer on
  the channel \<^verbatim>\<open>in\<close> (\<open>None\<close> is the nil map).
\<close>

datatype select_event =
    FromCcmd PushCommand int
  | FromIn "JsMap option"

definition Run_cmd :: "'w Env \<Rightarrow> PushWS \<Rightarrow> PushCommand \<Rightarrow> int \<Rightarrow> 'w sys \<Rightarrow> 'w sys" where
  "Run_cmd env sock cmd now s =
     (let s1 = emit (Log INFO ''worker'' ''Client cmd'') s
      in if Command cmd = FLUSH env
         then Flush env sock now (emit (Log INFO ''worker'' ''Flushing... %s'') s1)
         else s1)"

text \<open>The \<^verbatim>\<open>switch\<close> on the lower-cased message type.\<close>

definition Run_switch ::
  "'w Env \<Rightarrow> Worker \<Rightarrow> PushWS \<Rightarrow> string \<Rightarrow> JsMap \<Rightarrow> 'w sys
     \<Rightarrow> error option \<times> Worker \<times> PushWS \<times> JsMap \<times> 'w sys"
where
  "Run_switch env self sock mt buffer s =
     (if mt = ''hello'' then Hello env self sock buffer s
      else if mt = ''ack'' then
        (case Ack env sock buffer s of (err, s1) \<Rightarrow> (err, self, sock, buffer, s1))
      else if mt = ''register'' then
        (case Register env sock buffer s of (err, s1) \<Rightarrow> (err, self, sock, buffer, s1))
      else if mt = ''unregister'' then
        (case Unregister env sock buffer s of (err, s1) \<Rightarrow> (err, self, sock, buffer, s1))
      else if mt = ''ping'' then
        (case Ping sock buffer s of (err, s1) \<Rightarrow> (err, self, sock, buffer, s1))
      else (Some UnknownCommandError, self, sock, buffer,
            emit (Log WARN ''worker'' ''Bad command'') s))"

text \<open>
  The body of \<^verbatim>\<open>case buffer := <-in\<close>, after its \<^verbatim>\<open>defer\<close>. Writing
  \<^verbatim>\<open>messageType\<close> into a nil map panics, and so does the type assertion on a
  \<^verbatim>\<open>messageType\<close> that is not a string; both happen in \<^verbatim>\<open>Run\<close> itself, outside
  every handler. Each \<^verbatim>\<open>break\<close> leaves the \<^verbatim>\<open>select\<close>, not the \<^verbatim>\<open>for\<close>:
  the outcome \<open>Return\<close> is the next iteration.
\<close>

definition Run_in ::
  "'w Env \<Rightarrow> Worker \<Rightarrow> PushWS \<Rightarrow> JsMap option \<Rightarrow> 'w sys \<Rightarrow> outcome \<times> Worker \<times> PushWS \<times> 'w sys"
where
  "Run_in env self sock buf s =
     (case buf of
        None \<Rightarrow> (Panic, self, sock, s)
      | Some b \<Rightarrow>
          (let s1 = (if 0 < length b
                     then emit (Log INFO ''worker'' ''Client Read buffer, %s %d'') s else s);
               buffer = (if length b = 0 then jsset b ''messageType'' (JStr ''ping'') else b)
           in if \<not> haskey buffer ''messageType''
              then (Return None, self, sock,
                    handleError env sock [] UnknownCommandError
                      (emit (Log INFO ''worker'' ''Invalid message'') s1))
              else (case asString (jsget buffer ''messageType'') of
                      None \<Rightarrow> (Panic, self, sock, s1)
                    | Some mt \<Rightarrow>
                        (case Run_switch env self sock (ToLower env mt) buffer s1 of
                           (None, self1, sock1, buffer1, s2) \<Rightarrow> (Return None, self1, sock1, s2)
                         | (Some e, self1, sock1, buffer1, s2) \<Rightarrow>
                             (Return (Some e), self1, sock1,
                              handleError env sock1 buffer1 e s2)))))"

text \<open>
  The deferred function of \<^verbatim>\<open>Run\<close>. The \<^verbatim>\<open>defer\<close> statement stands inside the loop,
  so one copy is registered for every buffer received; when \<^verbatim>\<open>Run\<close> panics they all
  run, last registered first. The first one recovers the panic and logs it; every one
  sends \<^verbatim>\<open>DIE\<close> and closes the socket.
\<close>

definition deferred :: "'w Env \<Rightarrow> bool \<Rightarrow> 'w sys \<Rightarrow> 'w sys" where
  "deferred env panicking s =
     emit Close
       (scmd_send env \<lparr>Command = DIE env, Arguments = JNull\<rparr>
          (if panicking then emit (Log ERROR ''worker'' ''panic'') s else s))"

fun run_defers :: "'w Env \<Rightarrow> nat \<Rightarrow> bool \<Rightarrow> 'w sys \<Rightarrow> 'w sys" where
  "run_defers env 0 panicking s = s"
| "run_defers env (Suc n) panicking s = run_defers env n False (deferred env panicking s)"

datatype run_status = Blocked | Returned

text \<open>
  \<^verbatim>\<open>Run\<close> over the events its \<^verbatim>\<open>select\<close> receives, with the number of deferred
  functions registered so far. The loop has no exit but a panic (the two statements
  after it are never reached); with no event left, \<^verbatim>\<open>Run\<close> is blocked in the \<^verbatim>\<open>select\<close>.
\<close>

fun Run_loop ::
  "'w Env \<Rightarrow> Worker \<Rightarrow> PushWS \<Rightarrow> nat \<Rightarrow> select_event list \<Rightarrow> 'w sys
     \<Rightarrow> run_status \<times> Worker \<times> PushWS \<times> 'w sys"
where
  "Run_loop env self sock n [] s = (Blocked, self, sock, s)"
| "Run_loop env self sock n (FromCcmd cmd now # es) s =
     Run_loop env self sock n es (Run_cmd env sock cmd now s)"
| "Run_loop env self sock n (FromIn buf # es) s =
     (case Run_in env self sock buf s of
        (Panic, self1, sock1, s1) \<Rightarrow> (Returned, self1, sock1, run_defers env (Suc n) True s1)
      | (Return err, self1, sock1, s1) \<Rightarrow> Run_loop env self1 sock1 (Suc n) es s1)"

definition Run ::
  "'w Env \<Rightarrow> Worker \<Rightarrow> PushWS \<Rightarrow> select_event list \<Rightarrow> 'w sys
     \<Rightarrow> run_status \<times> Worker \<times> PushWS \<times> 'w sys"
where
  "Run env self sock es s = Run_loop env self sock 0 es s"

subsection \<open>The sniffer\<close>

text \<open>What \<^verbatim>\<open>websocket.Message.Receive\<close> returns: an error, or the payload of a frame.\<close>

datatype recv = RecvErr | Recv string

definition sniffer_exit :: "'w Env \<Rightarrow> 'w sys \<Rightarrow> 'w sys" where
  "sniffer_exit env s = emit Close (scmd_send env \<lparr>Command = DIE env, Arguments = JNull\<rparr> s)"

text \<open>
  The sniffer over the results of its reads: the buffers it puts on \<^verbatim>\<open>in\<close>, whether it
  has left its loop, and what it did. A payload of length 0 is not decoded and nothing is
  put on \<^verbatim>\<open>in\<close>.
\<close>

fun sniffer :: "'w Env \<Rightarrow> recv list \<Rightarrow> 'w sys \<Rightarrow> JsMap option list \<times> bool \<times> 'w sys" where
  "sniffer env [] s = ([], False, s)"
| "sniffer env (RecvErr # rs) s =
     ([], True, sniffer_exit env (emit (Log ERROR ''worker'' ''Websocket Error'') s))"
| "sniffer env (Recv raw # rs) s =
     (if 0 < length raw
      then (let s1 = (if 5 < length raw
                      then emit (Log INFO ''worker'' ''Socket receive'') s else s)
            in case Unmarshal env raw of
                 None \<Rightarrow>
                   ([], True, sniffer_exit env (emit (Log ERROR ''worker'' ''Unparsable data'') s1))
               | Some buffer \<Rightarrow>
                   (let n = (case buffer of None \<Rightarrow> 0 | Some b \<Rightarrow> length b);
                        s2 = (if 10 < n then emit (Log INFO ''worker'' ''Socket send'') s1 else s1)
                    in case sniffer env rs s2 of
                         (fwd, exited, s3) \<Rightarrow> (buffer # fwd, exited, s3)))
      else sniffer env rs s)"

text \<open>
  A session in which nothing arrives on \<^verbatim>\<open>sock.Ccmd\<close>: \<^verbatim>\<open>Run\<close> handles the buffers the
  sniffer forwards, in order. The two goroutines keep their own traces; here the sniffer's
  effects on the world come first.
\<close>

definition session ::
  "'w Env \<Rightarrow> Worker \<Rightarrow> PushWS \<Rightarrow> recv list \<Rightarrow> 'w sys
     \<Rightarrow> (bool \<times> event list) \<times> (run_status \<times> Worker \<times> PushWS \<times> 'w sys)"
where
  "session env self sock rs s =
     (case sniffer env rs s of
        (fwd, exited, s1) \<Rightarrow>
          ((exited, drop (length (trace s)) (trace s1)),
           Run env self sock (map FromIn fwd) (s1\<lparr>trace := trace s\<rparr>)))"

subsection \<open>Reading a trace\<close>

fun sends :: "event list \<Rightarrow> JsMap list" where
  "sends [] = []"
| "sends (Send m # t) = m # sends t"
| "sends (e # t) = sends t"

fun scmds :: "event list \<Rightarrow> PushCommand list" where
  "scmds [] = []"
| "scmds (ToScmd c # t) = c # scmds t"
| "scmds (e # t) = scmds t"

fun store_calls :: "event list \<Rightarrow> store_call list" where
  "store_calls [] = []"
| "store_calls (StoreCall c # t) = c # store_calls t"
| "store_calls (e # t) = store_calls t"

fun closes :: "event list \<Rightarrow> nat" where
  "closes [] = 0"
| "closes (Close # t) = Suc (closes t)"
| "closes (e # t) = closes t"

definition dies :: "'w Env \<Rightarrow> event list \<Rightarrow> nat" where
  "dies env t = length (filter (\<lambda>c. Command c = DIE env) (scmds t))"

subsection \<open>The channel rule in the words of the specification\<close>

definition lower_class :: "char \<Rightarrow> bool" where
  "lower_class c =
     (let n = (of_char c :: nat) in
        (48 \<le> n \<and> n \<le> 57) \<or> (97 \<le> n \<and> n \<le> 122) \<or> n = 95 \<or> n = 45)"

text \<open>The pattern \<^verbatim>\<open>^[0-9a-z_-]+$\<close>, and the same pattern with \<^verbatim>\<open>*\<close> for \<^verbatim>\<open>+\<close>.\<close>

definition matches_plus :: "string \<Rightarrow> bool" where
  "matches_plus b = (b \<noteq> [] \<and> list_all lower_class b)"

definition matches_star :: "string \<Rightarrow> bool" where
  "matches_star b = list_all lower_class b"

text \<open>What is asked of the Unicode tables: lower-casing leaves no ASCII capital.\<close>

definition lowers :: "'w Env \<Rightarrow> bool" where
  "lowers env = (\<forall>b. list_all (\<lambda>c. \<not> isUpper c) (unicode_ToLower env b))"

subsection \<open>A small world for concrete runs\<close>

text \<open>
  Modelled from the spec: the storage back-end, the dispatcher, the UUID source, the error
  taxonomy and the JSON decoder are collaborators outside the source file. This instance
  is a store that is a list of registrations \<open>(uaid, channelID, version)\<close>, with an
  optional outage of \<^verbatim>\<open>DeleteAppID\<close>; a dispatcher that answers every request with the
  given reply; the HTTP-like statuses 401 and 503 for the error taxonomy; and a decoder
  that knows three frames.
\<close>

type_synonym registrations = "(string \<times> string \<times> int) list"

definition ping_frame :: string where
  \<open>ping_frame = ''{"messageType":"ping"}''\<close>

definition bad_frame :: string where
  \<open>bad_frame = ''{"messageType":5}''\<close>

definition mem_Unmarshal :: "string \<Rightarrow> JsMap option option" where
  "mem_Unmarshal raw =
     (if raw = ''{}'' then Some (Some [])
      else if raw = ''null'' then Some None
      else if raw = ping_frame then Some (Some [(''messageType'', JStr ''ping'')])
      else if raw = bad_frame then Some (Some [(''messageType'', JNum 5)])
      else None)"

definition mem_ErrToStatus :: "error \<Rightarrow> int \<times> string" where
  "mem_ErrToStatus e =
     (case e of
        UnknownCommandError \<Rightarrow> (401, ''Unknown Command'')
      | InvalidCommandError \<Rightarrow> (401, ''Invalid Command'')
      | MissingDataError \<Rightarrow> (401, ''Missing data'')
      | InvalidDataError \<Rightarrow> (401, ''Invalid data'')
      | OtherError m \<Rightarrow> (503, m))"

definition mem_env :: "PushCommand \<Rightarrow> bool \<Rightarrow> registrations Env" where
  "mem_env reply delete_fails =
     \<lparr>SetUAIDHost = (\<lambda>u w. (None, w)),
      GetUpdates = (\<lambda>u t w. ((None, None), w)),
      Store_Ack = (\<lambda>u d w. (None, w)),
      RegisterAppID = (\<lambda>u a v w. (None, (u, a, v) # w)),
      DeleteAppID = (\<lambda>u a c w.
         if delete_fails then (Some (OtherError ''storage down''), w)
         else (None, filter (\<lambda>r. \<not> (fst r = u \<and> fst (snd r) = a)) w)),
      Scmd_put = (\<lambda>c w. w),
      Scmd_take = (\<lambda>w. (reply, w)),
      GenUUID4 = (\<lambda>w. (''00000000-0000-4000-8000-000000000000'', w)),
      ErrToStatus = mem_ErrToStatus,
      Unmarshal = mem_Unmarshal,
      unicode_ToLower = map lower_byte,
      DIE = 6, HELLO = 2, REGIS = 1, FLUSH = 4\<rparr>"

definition ok_reply :: PushCommand where
  "ok_reply = \<lparr>Command = 200, Arguments = JObj [(''pushEndpoint'', JStr ''https://x/c1'')]\<rparr>"

definition bare_reply :: PushCommand where
  "bare_reply = \<lparr>Command = 200, Arguments = JNull\<rparr>"

definition sys0 :: "registrations sys" where
  "sys0 = \<lparr>world = [], trace = []\<rparr>"

section \<open>Properties\<close>

subsection \<open>Traces and maps\<close>

lemma trace_emit [simp]: "trace (emit e s) = trace s @ [e]"
  by (simp add: emit_def)

lemma world_emit [simp]: "world (emit e s) = world s"
  by (simp add: emit_def)

lemma sends_append [simp]: "sends (a @ b) = sends a @ sends b"
  by (induction a rule: sends.induct) simp_all

lemma scmds_append [simp]: "scmds (a @ b) = scmds a @ scmds b"
  by (induction a rule: scmds.induct) simp_all

lemma store_calls_append [simp]: "store_calls (a @ b) = store_calls a @ store_calls b"
  by (induction a rule: store_calls.induct) simp_all

lemma closes_append [simp]: "closes (a @ b) = closes a + closes b"
  by (induction a rule: closes.induct) simp_all

lemma jsget_jsset [simp]: "jsget (jsset m k v) k' = (if k' = k then v else jsget m k')"
  by (simp add: jsget_def jsset_def update_conv')

lemma ToLower_ping [simp]: "ToLower env ''ping'' = ''ping''"
  by (simp add: ToLower_def isASCII_def lower_byte_def isUpper_def)

subsection \<open>Handlers and the UAID guard\<close>

text \<open>
  Claim C1, amended. The guard of \<^verbatim>\<open>Register\<close>, \<^verbatim>\<open>Ack\<close> and \<^verbatim>\<open>Unregister\<close>
  reads \<^verbatim>\<open>sock.Uaid\<close>; no handler reads \<^verbatim>\<open>Worker.state\<close>. On a socket whose
  \<^verbatim>\<open>Uaid\<close> is empty, \<^verbatim>\<open>Register\<close> and \<^verbatim>\<open>Ack\<close> return
  \<^verbatim>\<open>InvalidCommandError\<close> and do nothing else, and \<^verbatim>\<open>Unregister\<close> returns
  \<^verbatim>\<open>InvalidCommandError\<close> and only writes a log line. \<^verbatim>\<open>Ping\<close> has no guard: on
  every socket it sends the reply with status 200 and returns no error. On a socket whose
  \<^verbatim>\<open>Uaid\<close> is not empty, whatever the state of the worker (\<^verbatim>\<open>INACTIVE\<close> included),
  an unregister message with a string \<^verbatim>\<open>channelID\<close> is answered with status 200 and
  no error. A message of any type other than hello changes neither the worker nor the
  socket, and what it returns and does is the same for every state of the worker.
\<close>

theorem uaid_guard:
  "(Uaid sock = [] \<longrightarrow>
        Register env sock data s = (Some InvalidCommandError, s)
      \<and> Ack env sock data s = (Some InvalidCommandError, s)
      \<and> Unregister env sock data s =
          (Some InvalidCommandError,
           emit (Log ERROR ''worker'' ''Unregister failed, missing sock.uaid'') s))
   \<and> Ping sock data s =
        (None, emit (Send [(''messageType'', jsget data ''messageType''),
                           (''status'', JNum 200)]) s)
   \<and> (Uaid sock \<noteq> [] \<and> jsget data ''channelID'' = JStr c \<longrightarrow>
        fst (Run_switch env self sock ''unregister'' data s) = None
      \<and> sends (trace (snd (snd (snd (snd (Run_switch env self sock ''unregister'' data s))))))
          = sends (trace s) @ [[(''messageType'', jsget data ''messageType''),
                                (''status'', JNum 200), (''channelID'', JStr c)]])
   \<and> (mt \<noteq> ''hello'' \<longrightarrow>
        fst (snd (Run_switch env self sock mt data s)) = self
      \<and> fst (snd (snd (Run_switch env self sock mt data s))) = sock
      \<and> fst (Run_switch env self sock mt data s) = fst (Run_switch env self' sock mt data s)
      \<and> snd (snd (snd (snd (Run_switch env self sock mt data s))))
          = snd (snd (snd (snd (Run_switch env self' sock mt data s)))))"
proof (intro conjI impI)
  assume "Uaid sock = []"
  then show "Register env sock data s = (Some InvalidCommandError, s)"
    and "Ack env sock data s = (Some InvalidCommandError, s)"
    and "Unregister env sock data s =
          (Some InvalidCommandError,
           emit (Log ERROR ''worker'' ''Unregister failed, missing sock.uaid'') s)"
    by (simp_all add: Register_def Register_body_def Ack_def Ack_body_def Unregister_def
        Unregister_body_def recovered_def)
next
  show "Ping sock data s =
        (None, emit (Send [(''messageType'', jsget data ''messageType''),
                           (''status'', JNum 200)]) s)"
    by (simp add: Ping_def)
next
  assume a: "Uaid sock \<noteq> [] \<and> jsget data ''channelID'' = JStr c"
  then show "fst (Run_switch env self sock ''unregister'' data s) = None"
    by (simp add: Run_switch_def Unregister_def Unregister_body_def recovered_def store_op_def
        Let_def split: prod.splits)
  from a
  show "sends (trace (snd (snd (snd (snd (Run_switch env self sock ''unregister'' data s))))))
          = sends (trace s) @ [[(''messageType'', jsget data ''messageType''),
                                (''status'', JNum 200), (''channelID'', JStr c)]]"
    by (simp add: Run_switch_def Unregister_def Unregister_body_def recovered_def store_op_def
        Let_def split: prod.splits)
next
  assume "mt \<noteq> ''hello''"
  then show "fst (snd (Run_switch env self sock mt data s)) = self"
    and "fst (snd (snd (Run_switch env self sock mt data s))) = sock"
    and "fst (Run_switch env self sock mt data s) = fst (Run_switch env self' sock mt data s)"
    and "snd (snd (snd (snd (Run_switch env self sock mt data s))))
          = snd (snd (snd (snd (Run_switch env self' sock mt data s))))"
    by (simp_all add: Run_switch_def split: prod.splits)
qed

text \<open>
  A register on a socket without a UAID; a worker in state \<^verbatim>\<open>INACTIVE\<close> whose socket
  has a UAID, answering an unregister; a ping, which leaves worker and socket as they are.
\<close>

theorem uaid_guard_witness:
  "Register (mem_env ok_reply False) \<lparr>Uaid = []\<rparr>
       [(''messageType'', JStr ''register''), (''channelID'', JStr ''abc'')] sys0
     = (Some InvalidCommandError, sys0)
   \<and> Ping \<lparr>Uaid = []\<rparr> [(''messageType'', JStr ''ping'')] sys0
     = (None, \<lparr>world = [],
               trace = [Send [(''messageType'', JStr ''ping''), (''status'', JNum 200)]]\<rparr>)
   \<and> state NewWorker = INACTIVE
   \<and> fst (Run_switch (mem_env ok_reply False) NewWorker \<lparr>Uaid = ''u1''\<rparr> ''unregister''
       [(''messageType'', JStr ''unregister''), (''channelID'', JStr ''c1'')] sys0) = None
   \<and> sends (trace (snd (snd (snd (snd
       (Run_switch (mem_env ok_reply False) NewWorker \<lparr>Uaid = ''u1''\<rparr> ''unregister''
         [(''messageType'', JStr ''unregister''), (''channelID'', JStr ''c1'')] sys0))))))
     = [[(''messageType'', JStr ''unregister''), (''status'', JNum 200),
         (''channelID'', JStr ''c1'')]]
   \<and> fst (snd (Run_switch (mem_env ok_reply False) NewWorker \<lparr>Uaid = []\<rparr> ''ping''
       [(''messageType'', JStr ''ping'')] sys0)) = NewWorker"
  using uaid_guard [of "\<lparr>Uaid = []\<rparr>" "mem_env ok_reply False"
      "[(''messageType'', JStr ''register''), (''channelID'', JStr ''abc'')]" sys0
      "''abc''" NewWorker "''ping''" "\<lparr>state = ACTIVE\<rparr>"]
    uaid_guard [of "\<lparr>Uaid = []\<rparr>" "mem_env ok_reply False"
      "[(''messageType'', JStr ''ping'')]" sys0 "[]" NewWorker "''ping''"
      "\<lparr>state = ACTIVE\<rparr>"]
    uaid_guard [of "\<lparr>Uaid = ''u1''\<rparr>" "mem_env ok_reply False"
      "[(''messageType'', JStr ''unregister''), (''channelID'', JStr ''c1'')]" sys0
      "''c1''" NewWorker "''ping''" "\<lparr>state = ACTIVE\<rparr>"]
  by (simp add: jsget_def emit_def sys0_def NewWorker_def)

text \<open>
  A ping on a session that has seen no hello: no error, and the reply with status 200.
  And a fresh session that receives a hello with a uaid of 101 bytes and then an unregister:
  the hello is answered with the status of \<^verbatim>\<open>InvalidDataError\<close>, the worker is still
  \<^verbatim>\<open>INACTIVE\<close>, and the unregister is answered with status 200.
\<close>

theorem inactive_session_served:
  "fst (Ping \<lparr>Uaid = []\<rparr> [(''messageType'', JStr ''ping'')] sys0) = None
   \<and> sends (trace (snd (Ping \<lparr>Uaid = []\<rparr> [(''messageType'', JStr ''ping'')] sys0)))
       = [[(''messageType'', JStr ''ping''), (''status'', JNum 200)]]
   \<and> state (fst (snd (Run (mem_env ok_reply False) NewWorker \<lparr>Uaid = []\<rparr>
        [FromIn (Some [(''messageType'', JStr ''hello''),
                       (''uaid'', JStr (replicate 101 (CHR ''a''))),
                       (''channelIDs'', JArr [])]),
         FromIn (Some [(''messageType'', JStr ''unregister''),
                       (''channelID'', JStr ''c1'')])] sys0))) = INACTIVE
   \<and> map (\<lambda>m. jsget m ''status'')
        (sends (trace (snd (snd (snd (Run (mem_env ok_reply False) NewWorker \<lparr>Uaid = []\<rparr>
        [FromIn (Some [(''messageType'', JStr ''hello''),
                       (''uaid'', JStr (replicate 101 (CHR ''a''))),
                       (''channelIDs'', JArr [])]),
         FromIn (Some [(''messageType'', JStr ''unregister''),
                       (''channelID'', JStr ''c1'')])] sys0))))))
       = [JNum 401, JNum 200]"
  by (simp add: Ping_def Run_def Run_in_def Run_switch_def Hello_def Hello_body_def
      Unregister_def Unregister_body_def recovered_def handleError_def store_op_def
      haskey_def jsget_def jsset_def sys0_def NewWorker_def mem_env_def mem_ErrToStatus_def
      UAID_MAX_LEN_def ToLower_def isASCII_def lower_byte_def isUpper_def)

subsection \<open>The UAID of a session\<close>

lemma jsget_haskey: "jsget m k = JStr u \<Longrightarrow> haskey m k"
  by (simp add: jsget_def haskey_def split: option.splits)

lemma Hello_finish_sock:
  "fst (snd (snd (Hello_finish env self sock data s))) = sock"
  by (simp add: Hello_finish_def Let_def split: prod.splits option.splits)

lemma Hello_body_sock:
  "Uaid sock \<noteq> [] \<Longrightarrow> fst (snd (snd (Hello_body env self sock buffer s))) = sock"
  by (simp add: Hello_body_def Let_def Hello_finish_sock split: option.splits)

text \<open>
  Claim C2, amended. Once the \<^verbatim>\<open>Uaid\<close> of the socket is non-empty, no \<^verbatim>\<open>Hello\<close>
  changes it, whatever the buffer holds and however the call ends. A hello that presents
  a different non-empty uaid is answered with \<^verbatim>\<open>InvalidCommandError\<close>, nothing else
  being done, provided it carries \<^verbatim>\<open>channelIDs\<close>; without \<^verbatim>\<open>channelIDs\<close> the
  result is \<^verbatim>\<open>MissingDataError\<close>, because that test comes first.
\<close>

theorem uaid_immutable:
  assumes "Uaid sock \<noteq> []"
  shows "fst (snd (snd (Hello env self sock buffer s))) = sock
       \<and> (jsget buffer ''channelIDs'' \<noteq> JNull \<and> jsget buffer ''uaid'' = JStr u
            \<and> u \<noteq> [] \<and> u \<noteq> Uaid sock
          \<longrightarrow> Hello env self sock buffer s = (Some InvalidCommandError, self, sock, buffer, s))
       \<and> (jsget buffer ''channelIDs'' = JNull
          \<longrightarrow> fst (Hello env self sock buffer s) = Some MissingDataError)"
proof (intro conjI impI)
  show "fst (snd (snd (Hello env self sock buffer s))) = sock"
    using Hello_body_sock [OF assms, of env self buffer s]
    by (cases "Hello_body env self sock buffer s")
       (auto simp add: Hello_def split: prod.splits)
next
  assume a: "jsget buffer ''channelIDs'' \<noteq> JNull \<and> jsget buffer ''uaid'' = JStr u
            \<and> u \<noteq> [] \<and> u \<noteq> Uaid sock"
  then have "haskey buffer ''uaid''" by (simp add: jsget_haskey)
  with a assms
  show "Hello env self sock buffer s = (Some InvalidCommandError, self, sock, buffer, s)"
    by (auto simp add: Hello_def Hello_body_def recovered_def)
next
  assume "jsget buffer ''channelIDs'' = JNull"
  then show "fst (Hello env self sock buffer s) = Some MissingDataError"
    by (simp add: Hello_def Hello_body_def recovered_def Let_def)
qed

theorem uaid_immutable_witness:
  "Hello (mem_env ok_reply False) NewWorker \<lparr>Uaid = ''u1''\<rparr>
      [(''messageType'', JStr ''hello''), (''uaid'', JStr ''u2''), (''channelIDs'', JArr [])] sys0
    = (Some InvalidCommandError, NewWorker, \<lparr>Uaid = ''u1''\<rparr>,
       [(''messageType'', JStr ''hello''), (''uaid'', JStr ''u2''), (''channelIDs'', JArr [])], sys0)
   \<and> fst (snd (snd (Hello (mem_env ok_reply False) NewWorker \<lparr>Uaid = ''u1''\<rparr>
      [(''messageType'', JStr ''hello''), (''uaid'', JStr ''u1''), (''channelIDs'', JArr [])] sys0)))
      = \<lparr>Uaid = ''u1''\<rparr>"
  using uaid_immutable [of "\<lparr>Uaid = ''u1''\<rparr>" "mem_env ok_reply False" NewWorker
      "[(''messageType'', JStr ''hello''), (''uaid'', JStr ''u2''), (''channelIDs'', JArr [])]"
      sys0 "''u2''"]
    uaid_immutable [of "\<lparr>Uaid = ''u1''\<rparr>" "mem_env ok_reply False" NewWorker
      "[(''messageType'', JStr ''hello''), (''uaid'', JStr ''u1''), (''channelIDs'', JArr [])]"
      sys0 "''u1''"]
  by (simp add: jsget_def)

text \<open>
  On a session with UAID \<^verbatim>\<open>u1\<close>, a hello that presents \<^verbatim>\<open>u2\<close> and no
  \<^verbatim>\<open>channelIDs\<close>: the result is \<^verbatim>\<open>MissingDataError\<close>.
\<close>

theorem hello_other_uaid_without_channels:
  "fst (Hello (mem_env ok_reply False) NewWorker \<lparr>Uaid = ''u1''\<rparr>
      [(''messageType'', JStr ''hello''), (''uaid'', JStr ''u2'')] sys0)
    = Some MissingDataError"
  by (simp add: Hello_def Hello_body_def recovered_def haskey_def jsget_def)

text \<open>
  Claim C6. On a socket without a UAID, a hello with \<^verbatim>\<open>channelIDs\<close> whose uaid is
  longer than \<^verbatim>\<open>UAID_MAX_LEN\<close> returns \<^verbatim>\<open>InvalidDataError\<close> and does nothing to the
  outside, but the socket holds the rejected uaid afterwards: the assignment to
  \<^verbatim>\<open>sock.Uaid\<close> stands before the length test, and \<^verbatim>\<open>Hello\<close> has the socket by
  pointer. A non-empty uaid of at most \<^verbatim>\<open>UAID_MAX_LEN\<close> bytes is the socket's UAID
  after the call.
\<close>

theorem hello_overlong_uaid:
  assumes "Uaid sock = []" and "jsget buffer ''channelIDs'' \<noteq> JNull"
    and "jsget buffer ''uaid'' = JStr u"
  shows "(UAID_MAX_LEN < length u \<longrightarrow>
            Hello env self sock buffer s
              = (Some InvalidDataError, self, sock\<lparr>Uaid := u\<rparr>, buffer, s))
       \<and> (0 < length u \<and> length u \<le> UAID_MAX_LEN \<longrightarrow>
            fst (snd (snd (Hello env self sock buffer s))) = sock\<lparr>Uaid := u\<rparr>)"
proof -
  have k: "haskey buffer ''uaid''" using assms(3) by (simp add: jsget_haskey)
  have "fst (snd (snd (Hello_finish env self (sock\<lparr>Uaid := u\<rparr>) buffer s))) = sock\<lparr>Uaid := u\<rparr>"
    by (rule Hello_finish_sock)
  with k assms show ?thesis
    by (cases "Hello_finish env self (sock\<lparr>Uaid := u\<rparr>) buffer s")
       (auto simp add: Hello_def Hello_body_def recovered_def split: prod.splits outcome.splits)
qed

theorem hello_overlong_uaid_witness:
  "Hello (mem_env ok_reply False) NewWorker \<lparr>Uaid = []\<rparr>
      [(''messageType'', JStr ''hello''), (''uaid'', JStr (replicate 101 (CHR ''a''))),
       (''channelIDs'', JArr [])] sys0
    = (Some InvalidDataError, NewWorker, \<lparr>Uaid = replicate 101 (CHR ''a'')\<rparr>,
       [(''messageType'', JStr ''hello''), (''uaid'', JStr (replicate 101 (CHR ''a''))),
        (''channelIDs'', JArr [])], sys0)
   \<and> fst (snd (snd (Hello (mem_env ok_reply False) NewWorker \<lparr>Uaid = []\<rparr>
      [(''messageType'', JStr ''hello''), (''uaid'', JStr (replicate 100 (CHR ''a''))),
       (''channelIDs'', JArr [])] sys0))) = \<lparr>Uaid = replicate 100 (CHR ''a'')\<rparr>"
  using hello_overlong_uaid [of "\<lparr>Uaid = []\<rparr>"
      "[(''messageType'', JStr ''hello''), (''uaid'', JStr (replicate 101 (CHR ''a''))),
        (''channelIDs'', JArr [])]" "replicate 101 (CHR ''a'')" "mem_env ok_reply False"
      NewWorker sys0]
    hello_overlong_uaid [of "\<lparr>Uaid = []\<rparr>"
      "[(''messageType'', JStr ''hello''), (''uaid'', JStr (replicate 100 (CHR ''a''))),
        (''channelIDs'', JArr [])]" "replicate 100 (CHR ''a'')" "mem_env ok_reply False"
      NewWorker sys0]
  by (simp add: jsget_def UAID_MAX_LEN_def)

subsection \<open>\<^verbatim>\<open>Unregister\<close>\<close>

text \<open>
  Claim C3, amended. On a socket with a UAID, \<^verbatim>\<open>Unregister\<close> goes by the
  \<^verbatim>\<open>channelID\<close> of the buffer. If it is a string, the handler returns no error and
  sends exactly one frame, the reply with status 200 and that channelID; this holds for
  every storage, since \<^verbatim>\<open>DeleteAppID\<close> is called once and what it returns is not
  looked at. If it is present and not a string, the type assertion panics, the handler
  returns \<^verbatim>\<open>InvalidDataError\<close> having called nothing and sent nothing. If it is
  missing or null, the handler returns \<^verbatim>\<open>MissingDataError\<close>.
\<close>

theorem unregister_by_channel:
  assumes "Uaid sock \<noteq> []"
  shows "(jsget data ''channelID'' = JStr c \<longrightarrow>
            fst (Unregister env sock data s) = None
          \<and> sends (trace (snd (Unregister env sock data s)))
              = sends (trace s) @ [[(''messageType'', jsget data ''messageType''),
                                    (''status'', JNum 200), (''channelID'', JStr c)]]
          \<and> store_calls (trace (snd (Unregister env sock data s)))
              = store_calls (trace s) @ [DeleteAppID_call (Uaid sock) c False])
       \<and> (jsget data ''channelID'' \<noteq> JNull \<and> asString (jsget data ''channelID'') = None \<longrightarrow>
            Unregister env sock data s
              = (Some InvalidDataError, emit (Log ERROR ''worker'' ''Unhandled error'') s))
       \<and> (jsget data ''channelID'' = JNull \<longrightarrow>
            Unregister env sock data s
              = (Some MissingDataError,
                 emit (Log ERROR ''worker'' ''Unregister failed, missing channelID'') s))"
  using assms
  by (simp add: Unregister_def Unregister_body_def recovered_def store_op_def Let_def
      split: prod.splits)

text \<open>
  A channel that was never registered, on a storage whose \<^verbatim>\<open>DeleteAppID\<close> fails; and
  a channelID that is a list.
\<close>

theorem unregister_by_channel_witness:
  "fst (Unregister (mem_env ok_reply True) \<lparr>Uaid = ''u1''\<rparr>
         [(''messageType'', JStr ''unregister''), (''channelID'', JStr ''never'')] sys0) = None
   \<and> sends (trace (snd (Unregister (mem_env ok_reply True) \<lparr>Uaid = ''u1''\<rparr>
         [(''messageType'', JStr ''unregister''), (''channelID'', JStr ''never'')] sys0)))
       = [[(''messageType'', JStr ''unregister''), (''status'', JNum 200),
           (''channelID'', JStr ''never'')]]
   \<and> fst (DeleteAppID (mem_env ok_reply True) ''u1'' ''never'' False [])
       = Some (OtherError ''storage down'')
   \<and> fst (Unregister (mem_env ok_reply True) \<lparr>Uaid = ''u1''\<rparr>
         [(''messageType'', JStr ''unregister''), (''channelID'', JArr [])] sys0)
       = Some InvalidDataError"
  using unregister_by_channel [of "\<lparr>Uaid = ''u1''\<rparr>"
      "[(''messageType'', JStr ''unregister''), (''channelID'', JStr ''never'')]" "''never''"
      "mem_env ok_reply True" sys0]
    unregister_by_channel [of "\<lparr>Uaid = ''u1''\<rparr>"
      "[(''messageType'', JStr ''unregister''), (''channelID'', JArr [])]" "''never''"
      "mem_env ok_reply True" sys0]
  by (simp add: jsget_def sys0_def mem_env_def)

text \<open>
  An unregister whose \<^verbatim>\<open>channelID\<close> is the number 5, on a session with a UAID: the
  handler returns \<^verbatim>\<open>InvalidDataError\<close>, and the one frame the run loop sends is the
  error reply.
\<close>

theorem unregister_numeric_channel:
  "fst (Unregister (mem_env ok_reply False) \<lparr>Uaid = ''u1''\<rparr>
         [(''messageType'', JStr ''unregister''), (''channelID'', JNum 5)] sys0)
     = Some InvalidDataError
   \<and> sends (trace (snd (snd (snd
        (Run_in (mem_env ok_reply False) \<lparr>state = ACTIVE\<rparr> \<lparr>Uaid = ''u1''\<rparr>
           (Some [(''messageType'', JStr ''unregister''), (''channelID'', JNum 5)]) sys0)))))
     = [[(''messageType'', JStr ''unregister''), (''channelID'', JNum 5),
         (''status'', JNum 401), (''error'', JStr ''Invalid data'')]]"
  by (simp add: Run_in_def Run_switch_def Unregister_def Unregister_body_def recovered_def
      handleError_def haskey_def jsget_def jsset_def sys0_def mem_env_def mem_ErrToStatus_def
      ToLower_def isASCII_def lower_byte_def isUpper_def)

subsection \<open>Empty payloads and empty buffers\<close>

text \<open>
  Claim C7, amended. A frame whose payload has length 0 is skipped by the sniffer: nothing
  is put on \<^verbatim>\<open>in\<close>, and the sniffer reads the next frame. What \<^verbatim>\<open>Run\<close> treats as a
  ping is the empty map (the payload \<^verbatim>\<open>{}\<close>): it is answered like the buffer
  \<^verbatim>\<open>{"messageType":"ping"}\<close>, with the reply of message type \<^verbatim>\<open>ping\<close> and status
  200 (the non-empty buffer is logged first).
\<close>

theorem empty_payload:
  "sniffer env (Recv [] # rs) s = sniffer env rs s
   \<and> Run_in env self sock (Some []) s
       = (Return None, self, sock,
          emit (Send [(''messageType'', JStr ''ping''), (''status'', JNum 200)]) s)
   \<and> Run_in env self sock (Some [(''messageType'', JStr ''ping'')]) s
       = (Return None, self, sock,
          emit (Send [(''messageType'', JStr ''ping''), (''status'', JNum 200)])
            (emit (Log INFO ''worker'' ''Client Read buffer, %s %d'') s))"
  by (simp add: Run_in_def Run_switch_def Ping_def jsset_def haskey_def jsget_def)

text \<open>
  A session that receives one frame with an empty payload sends nothing; a session that
  receives the ping frame sends the ping reply.
\<close>

theorem empty_payload_dropped:
  "sends (trace (snd (snd (snd (snd
      (session (mem_env ok_reply False) NewWorker \<lparr>Uaid = []\<rparr> [Recv []] sys0)))))) = []
   \<and> sends (trace (snd (snd (snd (snd
      (session (mem_env ok_reply False) NewWorker \<lparr>Uaid = []\<rparr> [Recv ping_frame] sys0))))))
     = [[(''messageType'', JStr ''ping''), (''status'', JNum 200)]]"
  by (simp add: session_def Run_def Run_in_def Run_switch_def Ping_def haskey_def jsget_def
      mem_env_def mem_Unmarshal_def ping_frame_def sys0_def)

subsection \<open>\<^verbatim>\<open>Flush\<close> without a UAID\<close>

text \<open>
  Claim C8. On a socket without a UAID, \<^verbatim>\<open>Flush\<close> logs the condition, sends
  \<^verbatim>\<open>DIE\<close> to the dispatcher and closes the socket, and then calls
  \<^verbatim>\<open>GetUpdates\<close> with the empty UAID all the same: the branch does not return.
\<close>

theorem Flush_without_uaid:
  "\<exists>t. trace (Flush env \<lparr>Uaid = []\<rparr> lastAccessed s)
      = trace s @ [Log ERROR ''worker'' ''Undefined UAID for socket. Aborting.'',
                   ToScmd \<lparr>Command = DIE env, Arguments = JNull\<rparr>,
                   Close,
                   StoreCall (GetUpdates_call [] lastAccessed)] @ t"
  by (simp add: Flush_def store_op_def scmd_send_def handleError_def Let_def
      split: prod.splits option.splits)

subsection \<open>Teardown\<close>

lemma dies_append [simp]: "dies env (a @ b) = dies env a + dies env b"
  by (simp add: dies_def)

lemma dies_simps [simp]:
  "dies env [] = 0"
  "dies env (ToScmd c # t) = (if Command c = DIE env then Suc (dies env t) else dies env t)"
  "dies env (Log l a b # t) = dies env t"
  "dies env (Send m # t) = dies env t"
  "dies env (Close # t) = dies env t"
  "dies env (StoreCall sc # t) = dies env t"
  by (simp_all add: dies_def)

lemma closes_deferred: "closes (trace (deferred env p s)) = Suc (closes (trace s))"
  by (simp add: deferred_def scmd_send_def)

lemma dies_deferred: "dies env (trace (deferred env p s)) = Suc (dies env (trace s))"
  by (simp add: deferred_def scmd_send_def)

lemma closes_run_defers: "closes (trace (run_defers env n p s)) = closes (trace s) + n"
  by (induction n arbitrary: p s) (simp_all add: closes_deferred)

lemma dies_run_defers: "dies env (trace (run_defers env n p s)) = dies env (trace s) + n"
  by (induction n arbitrary: p s) (simp_all add: dies_deferred)

text \<open>
  Claim C9. When \<^verbatim>\<open>Run\<close> returns, its deferred functions send one \<^verbatim>\<open>DIE\<close> and
  close the socket once for every buffer received so far, not once for the session: \<open>n\<close>
  registered functions add \<open>n\<close> to both counts. A session that receives a ping and then a
  buffer whose \<^verbatim>\<open>messageType\<close> is the number 5 ends with two \<^verbatim>\<open>DIE\<close> commands and
  two closes from \<^verbatim>\<open>Run\<close> alone.
\<close>

theorem teardown_once_per_buffer:
  "closes (trace (run_defers env n p s)) = closes (trace s) + n
   \<and> dies env (trace (run_defers env n p s)) = dies env (trace s) + n
   \<and> fst (Run (mem_env ok_reply False) NewWorker \<lparr>Uaid = []\<rparr>
        [FromIn (Some [(''messageType'', JStr ''ping'')]),
         FromIn (Some [(''messageType'', JNum 5)])] sys0) = Returned
   \<and> closes (trace (snd (snd (snd (Run (mem_env ok_reply False) NewWorker \<lparr>Uaid = []\<rparr>
        [FromIn (Some [(''messageType'', JStr ''ping'')]),
         FromIn (Some [(''messageType'', JNum 5)])] sys0))))) = 2
   \<and> dies (mem_env ok_reply False)
        (trace (snd (snd (snd (Run (mem_env ok_reply False) NewWorker \<lparr>Uaid = []\<rparr>
        [FromIn (Some [(''messageType'', JStr ''ping'')]),
         FromIn (Some [(''messageType'', JNum 5)])] sys0))))) = 2"
  by (simp add: closes_run_defers dies_run_defers Run_def Run_in_def Run_switch_def Ping_def
      haskey_def jsget_def sys0_def closes_deferred dies_deferred)

subsection \<open>Panics\<close>

lemma trace_handleError:
  "trace (handleError env sock m e s)
     = trace s @ [Log INFO ''worker'' ''Sending error'',
                  Send (jsset (jsset m ''status'' (JNum (fst (ErrToStatus env e))))
                          ''error'' (JStr (snd (ErrToStatus env e))))]"
  by (simp add: handleError_def Let_def)

lemma world_handleError: "world (handleError env sock m e s) = world s"
  by (simp add: handleError_def Let_def)










subsection \<open>\<^verbatim>\<open>Register\<close>\<close>

lemma lower_byte_not_upper: "\<not> isUpper (lower_byte c)"
  by (simp add: lower_byte_def isUpper_def)

lemma map_lower_byte_not_upper: "list_all (\<lambda>c. \<not> isUpper c) (map lower_byte b)"
  by (induction b) (simp_all add: lower_byte_not_upper)

lemma ToLower_not_upper:
  "lowers env \<or> list_all isASCII c \<Longrightarrow> list_all (\<lambda>c. \<not> isUpper c) (ToLower env c)"
  by (auto simp add: ToLower_def lowers_def map_lower_byte_not_upper)

lemma word_or_hyphen_lower: "\<not> isUpper c \<Longrightarrow> word_or_hyphen c = lower_class c"
  by (auto simp add: word_or_hyphen_def lower_class_def isUpper_def Let_def)

lemma filter_Find_iff:
  "list_all (\<lambda>c. \<not> isUpper c) b \<Longrightarrow> filter_Find b = (\<not> matches_star b)"
  by (induction b) (simp_all add: filter_Find_def matches_star_def word_or_hyphen_lower)

lemma lowers_mem_env: "lowers (mem_env reply d)"
  by (simp add: lowers_def mem_env_def map_lower_byte_not_upper)

text \<open>
  Claim C5, amended. On a socket with a UAID, for a buffer whose \<^verbatim>\<open>channelID\<close> is a
  string \<open>c\<close> (of ASCII bytes; or any string, with Unicode tables whose lower-casing leaves
  no ASCII capital, as those of \<^verbatim>\<open>unicode.ToLower\<close> do):
  if \<open>c\<close> has at most 100 bytes and its lower-cased form matches \<^verbatim>\<open>^[0-9a-z_-]*$\<close>
  (the empty string included), \<^verbatim>\<open>Register\<close> calls \<^verbatim>\<open>RegisterAppID\<close> for \<open>c\<close>,
  once, and makes no other call of the storage; otherwise it returns
  \<^verbatim>\<open>InvalidDataError\<close> and does nothing else.
\<close>

theorem register_channel_rule:
  assumes "lowers env \<or> list_all isASCII c"
    and "Uaid sock \<noteq> []" and "jsget data ''channelID'' = JStr c"
  shows "if length c \<le> 100 \<and> matches_star (ToLower env c)
         then store_calls (trace (snd (Register env sock data s)))
                = store_calls (trace s) @ [RegisterAppID_call (Uaid sock) c 0]
         else Register env sock data s = (Some InvalidDataError, s)"
proof -
  have f: "filter_Find (ToLower env c) = (\<not> matches_star (ToLower env c))"
    using assms(1) by (simp add: filter_Find_iff ToLower_not_upper)
  show ?thesis
    using assms(2,3) f
    by (auto simp add: Register_def Register_body_def recovered_def store_op_def scmd_send_def
        scmd_recv_def CHID_MAX_LEN_def Let_def split: prod.splits option.splits)
qed

text \<open>The channel \<^verbatim>\<open>c1\<close> is registered; the channel \<^verbatim>\<open>bad/id\<close> is refused.\<close>

theorem register_channel_rule_witness:
  "store_calls (trace (snd (Register (mem_env ok_reply False) \<lparr>Uaid = ''u1''\<rparr>
       [(''messageType'', JStr ''register''), (''channelID'', JStr ''c1'')] sys0)))
     = [RegisterAppID_call ''u1'' ''c1'' 0]
   \<and> Register (mem_env ok_reply False) \<lparr>Uaid = ''u1''\<rparr>
       [(''messageType'', JStr ''register''), (''channelID'', JStr ''bad/id'')] sys0
     = (Some InvalidDataError, sys0)"
  using register_channel_rule [of "mem_env ok_reply False" "''c1''" "\<lparr>Uaid = ''u1''\<rparr>"
      "[(''messageType'', JStr ''register''), (''channelID'', JStr ''c1'')]" sys0]
    register_channel_rule [of "mem_env ok_reply False" "''bad/id''" "\<lparr>Uaid = ''u1''\<rparr>"
      "[(''messageType'', JStr ''register''), (''channelID'', JStr ''bad/id'')]" sys0]
  by (simp add: lowers_mem_env jsget_def sys0_def matches_star_def lower_class_def ToLower_def isASCII_def
      lower_byte_def isUpper_def)

text \<open>
  A register whose \<^verbatim>\<open>channelID\<close> is the empty string, on a session with a UAID: no
  error, \<^verbatim>\<open>RegisterAppID\<close> is called with the empty channel, the success reply is sent;
  and the empty string does not match \<^verbatim>\<open>^[0-9a-z_-]+$\<close>.
\<close>

theorem register_empty_channel:
  "fst (Register (mem_env ok_reply False) \<lparr>Uaid = ''u1''\<rparr>
       [(''messageType'', JStr ''register''), (''channelID'', JStr [])] sys0) = None
   \<and> store_calls (trace (snd (Register (mem_env ok_reply False) \<lparr>Uaid = ''u1''\<rparr>
       [(''messageType'', JStr ''register''), (''channelID'', JStr [])] sys0)))
     = [RegisterAppID_call ''u1'' [] 0]
   \<and> sends (trace (snd (Register (mem_env ok_reply False) \<lparr>Uaid = ''u1''\<rparr>
       [(''messageType'', JStr ''register''), (''channelID'', JStr [])] sys0)))
     = [[(''messageType'', JStr ''register''), (''uaid'', JStr ''u1''), (''status'', JNum 200),
         (''channelID'', JStr []), (''pushEndpoint'', JStr ''https://x/c1'')]]
   \<and> \<not> matches_plus (ToLower (mem_env ok_reply False) [])"
  by (simp add: Register_def Register_body_def recovered_def store_op_def scmd_send_def
      scmd_recv_def jsget_def sys0_def mem_env_def ok_reply_def ToLower_def filter_Find_def
      matches_plus_def CHID_MAX_LEN_def)

text \<open>
  A channelID that is valid in the words of the specification passes the filter of
  \<^verbatim>\<open>Register\<close>.
\<close>

lemma lower_class_word: "lower_class c \<Longrightarrow> word_or_hyphen c"
  by (auto simp add: lower_class_def word_or_hyphen_def Let_def)

lemma matches_plus_passes: "matches_plus b \<Longrightarrow> \<not> filter_Find b"
  by (auto simp add: matches_plus_def filter_Find_def list_all_iff list_ex_iff lower_class_word)

text \<open>
  Claim C10. On a socket with a UAID, for a channelID that passes the checks of
  \<^verbatim>\<open>Register\<close> (at most \<^verbatim>\<open>CHID_MAX_LEN\<close> bytes, nothing for the filter to find in
  its lower-cased form): if \<^verbatim>\<open>RegisterAppID\<close> succeeds and the answer of the dispatcher
  has no string \<^verbatim>\<open>pushEndpoint\<close> (its arguments are not a map, or the entry is missing
  or not a string), then \<^verbatim>\<open>Register\<close> returns \<^verbatim>\<open>InvalidDataError\<close> and sends no
  frame, while the storage is what \<^verbatim>\<open>RegisterAppID\<close> made of it: that call is the only
  call of the storage, nothing takes the registration back. In the run loop the client is
  then sent the error reply for \<^verbatim>\<open>InvalidDataError\<close>.
\<close>

theorem register_not_atomic:
  assumes "Uaid sock \<noteq> []" and "jsget data ''channelID'' = JStr c"
    and "length c \<le> CHID_MAX_LEN" and "\<not> filter_Find (ToLower env c)"
    and "RegisterAppID env (Uaid sock) c 0 (world s) = (None, w1)"
    and "Scmd_take env (Scmd_put env \<lparr>Command = REGIS env, Arguments = JObj data\<rparr> w1)
           = (result, w2)"
    and "(case asJsMap (Arguments result) of
            None \<Rightarrow> None | Some args \<Rightarrow> asString (jsget args ''pushEndpoint'')) = None"
  shows "fst (Register env sock data s) = Some InvalidDataError
       \<and> world (snd (Register env sock data s)) = w2
       \<and> store_calls (trace (snd (Register env sock data s)))
           = store_calls (trace s) @ [RegisterAppID_call (Uaid sock) c 0]
       \<and> sends (trace (snd (Register env sock data s))) = sends (trace s)
       \<and> (jsget data ''messageType'' = JStr mt \<and> ToLower env mt = ''register'' \<longrightarrow>
            fst (Run_in env self sock (Some data) s) = Return (Some InvalidDataError)
          \<and> world (snd (snd (snd (Run_in env self sock (Some data) s)))) = w2
          \<and> store_calls (trace (snd (snd (snd (Run_in env self sock (Some data) s)))))
              = store_calls (trace s) @ [RegisterAppID_call (Uaid sock) c 0]
          \<and> sends (trace (snd (snd (snd (Run_in env self sock (Some data) s)))))
              = sends (trace s)
                @ [jsset (jsset data ''status'' (JNum (fst (ErrToStatus env InvalidDataError))))
                     ''error'' (JStr (snd (ErrToStatus env InvalidDataError)))])"
proof -
  have r: "\<And>t. world t = world s \<Longrightarrow>
      fst (Register env sock data t) = Some InvalidDataError
    \<and> world (snd (Register env sock data t)) = w2
    \<and> store_calls (trace (snd (Register env sock data t)))
        = store_calls (trace t) @ [RegisterAppID_call (Uaid sock) c 0]
    \<and> sends (trace (snd (Register env sock data t))) = sends (trace t)"
    using assms
    by (auto simp add: Register_def Register_body_def recovered_def store_op_def scmd_send_def
        scmd_recv_def Let_def split: prod.splits option.splits)
  have run: "fst (Run_in env self sock (Some data) s) = Return (Some InvalidDataError)
          \<and> world (snd (snd (snd (Run_in env self sock (Some data) s)))) = w2
          \<and> store_calls (trace (snd (snd (snd (Run_in env self sock (Some data) s)))))
              = store_calls (trace s) @ [RegisterAppID_call (Uaid sock) c 0]
          \<and> sends (trace (snd (snd (snd (Run_in env self sock (Some data) s)))))
              = sends (trace s)
                @ [jsset (jsset data ''status'' (JNum (fst (ErrToStatus env InvalidDataError))))
                     ''error'' (JStr (snd (ErrToStatus env InvalidDataError)))]"
    if m: "jsget data ''messageType'' = JStr mt \<and> ToLower env mt = ''register''"
  proof -
    let ?t = "emit (Log INFO ''worker'' ''Client Read buffer, %s %d'') s"
    from m have hk: "haskey data ''messageType''" by (simp add: jsget_haskey)
    from m have ne: "data \<noteq> []" by (auto simp add: jsget_def)
    obtain s' where reg: "Register env sock data ?t = (Some InvalidDataError, s')"
      using r [of ?t] by (cases "Register env sock data ?t") simp
    from r [of ?t] reg have w: "world s' = w2"
      and sc: "store_calls (trace s') = store_calls (trace s) @ [RegisterAppID_call (Uaid sock) c 0]"
      and sn: "sends (trace s') = sends (trace s)"
      by simp_all
    from m hk ne reg
    have "Run_in env self sock (Some data) s
            = (Return (Some InvalidDataError), self, sock,
               handleError env sock data InvalidDataError s')"
      by (simp add: Run_in_def Run_switch_def)
    with w sc sn show ?thesis
      by (simp add: trace_handleError world_handleError)
  qed
  from r [of s] run show ?thesis by simp
qed

text \<open>
  A dispatcher that answers the register command without arguments: the client is sent the
  error reply, and the storage holds the registration of \<^verbatim>\<open>c1\<close>.
\<close>

theorem register_not_atomic_witness:
  "fst (Register (mem_env bare_reply False) \<lparr>Uaid = ''u1''\<rparr>
       [(''messageType'', JStr ''register''), (''channelID'', JStr ''c1'')] sys0)
     = Some InvalidDataError
   \<and> world (snd (Register (mem_env bare_reply False) \<lparr>Uaid = ''u1''\<rparr>
       [(''messageType'', JStr ''register''), (''channelID'', JStr ''c1'')] sys0))
     = [(''u1'', ''c1'', 0)]
   \<and> sends (trace (snd (Register (mem_env bare_reply False) \<lparr>Uaid = ''u1''\<rparr>
       [(''messageType'', JStr ''register''), (''channelID'', JStr ''c1'')] sys0))) = []
   \<and> sends (trace (snd (snd (snd (Run_in (mem_env bare_reply False) \<lparr>state = ACTIVE\<rparr>
       \<lparr>Uaid = ''u1''\<rparr>
       (Some [(''messageType'', JStr ''register''), (''channelID'', JStr ''c1'')]) sys0)))))
     = [[(''messageType'', JStr ''register''), (''channelID'', JStr ''c1''),
         (''status'', JNum 401), (''error'', JStr ''Invalid data'')]]
   \<and> world (snd (snd (snd (Run_in (mem_env bare_reply False) \<lparr>state = ACTIVE\<rparr>
       \<lparr>Uaid = ''u1''\<rparr>
       (Some [(''messageType'', JStr ''register''), (''channelID'', JStr ''c1'')]) sys0))))
     = [(''u1'', ''c1'', 0)]"
  using register_not_atomic [of "\<lparr>Uaid = ''u1''\<rparr>"
      "[(''messageType'', JStr ''register''), (''channelID'', JStr ''c1'')]" "''c1''"
      "mem_env bare_reply False" sys0 "[(''u1'', ''c1'', 0)]" bare_reply "[(''u1'', ''c1'', 0)]"
      "''register''" "\<lparr>state = ACTIVE\<rparr>"]
  by (simp add: jsget_def jsset_def sys0_def mem_env_def mem_ErrToStatus_def bare_reply_def
      CHID_MAX_LEN_def ToLower_def isASCII_def lower_byte_def isUpper_def filter_Find_def
      word_or_hyphen_def)

end
